theory Spec2Isabelle
  imports Complex_Main
begin

section \<open>KPI aggregation for public transport delay analysis\<close>

text \<open>
  A shallow embedding of \<^verbatim>\<open>src/kpi_aggregation.py\<close>.

  Conventions of the embedding.
  \<^item> A float cell that only takes part in pandas' own total arithmetic (\<^verbatim>\<open>delay_minutes\<close>
    and the statistics derived from it) is a \<open>real option\<close>: \<open>None\<close> is NaN, \<open>Some x\<close> a
    finite value. Rounding of binary floating point is not part of the embedding.
  \<^item> The \<^verbatim>\<open>hour\<close> cell goes through Python's \<^verbatim>\<open>int(h)\<close>, which raises on an infinite
    float, so it keeps the infinities apart: type \<open>pyfloat\<close>.
  \<^item> A raised exception is the \<open>Inl\<close> branch of a sum.
  \<^item> The functions are embedded on values; where a property is about which object a call
    changes, they are embedded once more on a heap of tables.
  \<^item> The sort that \<^verbatim>\<open>sort_values\<close> delegates to numpy is an argument of the embedding.
\<close>

subsection \<open>Values and errors\<close>

datatype pyfloat = Fin real | PInf | NInf | NaN

datatype error =
    KeyError string
  | OverflowError
  | EmptyGroupbyError

text \<open>Python's \<^verbatim>\<open>int(x)\<close> on a float: truncation toward zero; an infinity raises
  OverflowError. (NaN raises as well; \<^verbatim>\<open>_bucket\<close> never reaches it.)\<close>

definition trunc :: "real \<Rightarrow> int" where
  "trunc x = (if 0 \<le> x then \<lfloor>x\<rfloor> else \<lceil>x\<rceil>)"

fun py_int :: "pyfloat \<Rightarrow> error + int" where
  "py_int (Fin x) = Inr (trunc x)"
| "py_int PInf = Inl OverflowError"
| "py_int NInf = Inl OverflowError"
| "py_int NaN = Inl OverflowError"

subsection \<open>Tables\<close>

text \<open>An event row carries the three columns the module reads. A data frame is its list
  of column labels together with its rows; a cell of a column that the frame does not have
  is never read.\<close>

record event =
  route_id :: "string option"
  hour :: pyfloat
  delay_minutes :: "real option"

record bucketed_event = event +
  time_of_day :: string

record 'r dataframe =
  columns :: "string list"
  rows :: "'r list"

text \<open>The series returned by \<^verbatim>\<open>_group_kpis\<close>, the row of the table after
  \<^verbatim>\<open>reset_index\<close> (the group key has become a column), and the row after
  \<^verbatim>\<open>_add_reliability_score\<close>.\<close>

datatype gkey =
    RouteKey "string option"
  | RouteHourKey "string option" pyfloat
  | RoutePeriodKey "string option" string

record kpi_series =
  avg_delay_min :: "real option"
  p90_delay_min :: "real option"
  on_time_rate :: "real option"
  n_events :: nat

record stat_row = kpi_series +
  gkey :: gkey

record kpi_row = stat_row +
  reliability_score :: "real option"

subsection \<open>Series operations of pandas\<close>

definition dropna :: "'a option list \<Rightarrow> 'a list" where
  "dropna cs = [x. Some x \<leftarrow> cs]"

definition mean :: "real list \<Rightarrow> real" where
  "mean xs = sum_list xs / real (length xs)"

text \<open>\<^verbatim>\<open>Series.quantile(q)\<close> with the default \<^verbatim>\<open>interpolation='linear'\<close>: on the
  sorted values, the virtual index is \<open>q * (n - 1)\<close> and the result interpolates between
  the order statistics below and above it.\<close>

definition quantile :: "real \<Rightarrow> real list \<Rightarrow> real" where
  "quantile q xs =
     (let s = sort xs;
          pos = q * real (length xs - 1);
          lo = nat \<lfloor>pos\<rfloor>;
          hi = nat \<lceil>pos\<rceil>;
          frac = pos - real lo
      in s ! lo + (s ! hi - s ! lo) * frac)"

text \<open>\<^verbatim>\<open>(delay <= t).mean()\<close>: the mean of a boolean series.\<close>

definition le_mean :: "real list \<Rightarrow> real \<Rightarrow> real" where
  "le_mean xs t = real (length (filter (\<lambda>d. d \<le> t) xs)) / real (length xs)"

text \<open>Element-wise float arithmetic: NaN propagates.\<close>

definition clip :: "real \<Rightarrow> real \<Rightarrow> real option \<Rightarrow> real option" where
  "clip lower upper c = map_option (\<lambda>x. min upper (max lower x)) c"

definition fillna :: "real \<Rightarrow> real option \<Rightarrow> real option" where
  "fillna v c = (case c of None \<Rightarrow> Some v | Some x \<Rightarrow> Some x)"

fun fop :: "(real \<Rightarrow> real \<Rightarrow> real) \<Rightarrow> real option \<Rightarrow> real option \<Rightarrow> real option" where
  "fop f (Some x) (Some y) = Some (f x y)"
| "fop f _ _ = None"

subsection \<open>Group statistics\<close>

definition group_kpis :: "('a event_scheme) dataframe \<Rightarrow> real \<Rightarrow> error + kpi_series" where
  "group_kpis grp on_time_threshold_min =
     (if ''delay_minutes'' \<notin> set (columns grp) then Inl (KeyError ''delay_minutes'')
      else
        let delay = dropna (map delay_minutes (rows grp)) in
        if delay = [] then
          Inr \<lparr>avg_delay_min = None, p90_delay_min = None, on_time_rate = None, n_events = 0\<rparr>
        else
          Inr \<lparr>avg_delay_min = Some (mean delay),
               p90_delay_min = Some (quantile 0.9 delay),
               on_time_rate = Some (le_mean delay on_time_threshold_min),
               n_events = length delay\<rparr>)"

subsection \<open>Reliability score\<close>

definition row_score :: "real option \<Rightarrow> real option \<Rightarrow> real option" where
  "row_score avg otr =
     (let delay_penalty = fop (/) (clip 0 10 avg) (Some 10.0);
          on_time = fillna 0 otr
      in fop (*) (Some 100.0)
           (fop (+) (fop (*) (Some 0.6) on_time)
                    (fop (*) (Some 0.4) (fop (-) (Some 1.0) (fillna 1.0 delay_penalty)))))"

definition add_reliability_score :: "stat_row list \<Rightarrow> kpi_row list" where
  "add_reliability_score kpis =
     map (\<lambda>r. \<lparr>avg_delay_min = avg_delay_min r, p90_delay_min = p90_delay_min r,
               on_time_rate = on_time_rate r, n_events = n_events r, gkey = gkey r,
               reliability_score = row_score (avg_delay_min r) (on_time_rate r)\<rparr>) kpis"

subsection \<open>Time-of-day bucket\<close>

definition bucket :: "pyfloat \<Rightarrow> error + string" where
  "bucket h =
     (if h = NaN then Inr ''Unknown''
      else case py_int h of
        Inl e \<Rightarrow> Inl e
      | Inr h_i \<Rightarrow>
          if 7 \<le> h_i \<and> h_i < 10 then Inr ''Morning peak''
          else if 10 \<le> h_i \<and> h_i < 16 then Inr ''Midday''
          else if 16 \<le> h_i \<and> h_i < 19 then Inr ''Evening peak''
          else Inr ''Night / off-peak'')"

text \<open>\<^verbatim>\<open>df["hour"].apply(_bucket)\<close>: row by row; the first exception aborts the call.\<close>

fun apply_bucket :: "event list \<Rightarrow> error + bucketed_event list" where
  "apply_bucket [] = Inr []"
| "apply_bucket (e # es) =
     (case bucket (hour e) of
        Inl err \<Rightarrow> Inl err
      | Inr b \<Rightarrow>
          (case apply_bucket es of
             Inl err \<Rightarrow> Inl err
           | Inr bs \<Rightarrow>
               Inr (\<lparr>route_id = route_id e, hour = hour e, delay_minutes = delay_minutes e,
                     time_of_day = b\<rparr> # bs)))"

text \<open>Assigning a column that exists replaces it, otherwise the label is appended.\<close>

definition set_column :: "string \<Rightarrow> string list \<Rightarrow> string list" where
  "set_column c cols = (if c \<in> set cols then cols else cols @ [c])"

definition add_time_of_day_bucket :: "event dataframe \<Rightarrow> error + bucketed_event dataframe" where
  "add_time_of_day_bucket df =
     (if ''hour'' \<notin> set (columns df) then Inl (KeyError ''Dataframe must contain hour'')
      else case apply_bucket (rows df) of
        Inl err \<Rightarrow> Inl err
      | Inr bs \<Rightarrow> Inr \<lparr>columns = set_column ''time_of_day'' (columns df), rows = bs\<rparr>)"

subsection \<open>Grouping\<close>

text \<open>
  \<^verbatim>\<open>df.groupby(by, dropna=False).apply(f).reset_index()\<close>:
  \<^item> a label of \<^verbatim>\<open>by\<close> that is not a column raises KeyError;
  \<^item> there is one group per distinct key, a null key being a key like any other
    (\<^verbatim>\<open>dropna=False\<close>), and the groups come sorted by key, nulls last;
  \<^item> each group keeps the columns of the frame and its rows in their input order;
  \<^item> on a frame without rows \<^verbatim>\<open>f\<close> is never called and the result has the columns of
    the input, none of the KPI columns: the callers below then fail, in \<^verbatim>\<open>reset_index\<close>
    or at \<^verbatim>\<open>kpis["avg_delay_min"]\<close> depending on the pandas release. The embedding
    raises \<open>EmptyGroupbyError\<close> for either.
\<close>

fun lex_le :: "string \<Rightarrow> string \<Rightarrow> bool" where
  "lex_le [] ys = True"
| "lex_le (x # xs) [] = False"
| "lex_le (x # xs) (y # ys) =
     ((of_char x :: nat) < of_char y \<or> (x = y \<and> lex_le xs ys))"

fun opt_le :: "('a \<Rightarrow> 'a \<Rightarrow> bool) \<Rightarrow> 'a option \<Rightarrow> 'a option \<Rightarrow> bool" where
  "opt_le le (Some x) (Some y) = le x y"
| "opt_le le (Some x) None = True"
| "opt_le le None (Some y) = False"
| "opt_le le None None = True"

fun pyfloat_le :: "pyfloat \<Rightarrow> pyfloat \<Rightarrow> bool" where
  "pyfloat_le (Fin x) (Fin y) = (x \<le> y)"
| "pyfloat_le NaN NaN = True"
| "pyfloat_le NaN y = False"
| "pyfloat_le x NaN = True"
| "pyfloat_le NInf y = True"
| "pyfloat_le x PInf = True"
| "pyfloat_le PInf y = False"
| "pyfloat_le x NInf = False"

fun gkey_le :: "gkey \<Rightarrow> gkey \<Rightarrow> bool" where
  "gkey_le (RouteKey r) (RouteKey r') = opt_le lex_le r r'"
| "gkey_le (RouteHourKey r h) (RouteHourKey r' h') =
     (if r = r' then pyfloat_le h h' else opt_le lex_le r r')"
| "gkey_le (RoutePeriodKey r p) (RoutePeriodKey r' p') =
     (if r = r' then lex_le p p' else opt_le lex_le r r')"
| "gkey_le k k' = True"

fun insert_key :: "gkey \<Rightarrow> gkey list \<Rightarrow> gkey list" where
  "insert_key k [] = [k]"
| "insert_key k (k' # ks) = (if gkey_le k k' then k # k' # ks else k' # insert_key k ks)"

definition group_keys :: "('r \<Rightarrow> gkey) \<Rightarrow> 'r list \<Rightarrow> gkey list" where
  "group_keys keyf rs = foldr insert_key (remdups (map keyf rs)) []"

fun missing_label :: "string list \<Rightarrow> string list \<Rightarrow> string option" where
  "missing_label [] cols = None"
| "missing_label (b # bs) cols = (if b \<in> set cols then missing_label bs cols else Some b)"

fun apply_groups ::
  "('r dataframe \<Rightarrow> error + kpi_series) \<Rightarrow> ('r \<Rightarrow> gkey) \<Rightarrow> 'r dataframe \<Rightarrow> gkey list
     \<Rightarrow> error + stat_row list" where
  "apply_groups f keyf df [] = Inr []"
| "apply_groups f keyf df (k # ks) =
     (case f \<lparr>columns = columns df, rows = filter (\<lambda>e. keyf e = k) (rows df)\<rparr> of
        Inl err \<Rightarrow> Inl err
      | Inr s \<Rightarrow>
          (case apply_groups f keyf df ks of
             Inl err \<Rightarrow> Inl err
           | Inr rest \<Rightarrow>
               Inr (\<lparr>avg_delay_min = avg_delay_min s, p90_delay_min = p90_delay_min s,
                     on_time_rate = on_time_rate s, n_events = n_events s, gkey = k\<rparr> # rest)))"

definition groupby_apply ::
  "string list \<Rightarrow> ('r \<Rightarrow> gkey) \<Rightarrow> ('r dataframe \<Rightarrow> error + kpi_series) \<Rightarrow> 'r dataframe
     \<Rightarrow> error + stat_row list" where
  "groupby_apply by keyf f df =
     (case missing_label by (columns df) of
        Some b \<Rightarrow> Inl (KeyError b)
      | None \<Rightarrow>
          if rows df = [] then Inl EmptyGroupbyError
          else apply_groups f keyf df (group_keys keyf (rows df)))"

subsection \<open>The three KPI tables\<close>

definition compute_route_kpis :: "event dataframe \<Rightarrow> real \<Rightarrow> error + kpi_row list" where
  "compute_route_kpis df on_time_threshold_min =
     (if ''route_id'' \<notin> set (columns df) \<or> ''delay_minutes'' \<notin> set (columns df)
      then Inl (KeyError ''Dataframe must contain route_id and delay_minutes'')
      else case groupby_apply [''route_id''] (\<lambda>e. RouteKey (route_id e))
                  (\<lambda>g. group_kpis g on_time_threshold_min) df of
        Inl err \<Rightarrow> Inl err
      | Inr kpis \<Rightarrow> Inr (add_reliability_score kpis))"

definition compute_route_hour_kpis :: "event dataframe \<Rightarrow> real \<Rightarrow> error + kpi_row list" where
  "compute_route_hour_kpis df on_time_threshold_min =
     (if ''hour'' \<notin> set (columns df) then Inl (KeyError ''Dataframe must contain hour'')
      else case groupby_apply [''route_id'', ''hour''] (\<lambda>e. RouteHourKey (route_id e) (hour e))
                  (\<lambda>g. group_kpis g on_time_threshold_min) df of
        Inl err \<Rightarrow> Inl err
      | Inr kpis \<Rightarrow> Inr (add_reliability_score kpis))"

definition compute_route_period_kpis :: "event dataframe \<Rightarrow> real \<Rightarrow> error + kpi_row list" where
  "compute_route_period_kpis df on_time_threshold_min =
     (case add_time_of_day_bucket df of
        Inl err \<Rightarrow> Inl err
      | Inr df_bucketed \<Rightarrow>
          (case groupby_apply [''route_id'', ''time_of_day'']
                  (\<lambda>e. RoutePeriodKey (route_id e) (time_of_day e))
                  (\<lambda>g. group_kpis g on_time_threshold_min) df_bucketed of
             Inl err \<Rightarrow> Inl err
           | Inr kpis \<Rightarrow> Inr (add_reliability_score kpis)))"

subsection \<open>Tables as objects\<close>

text \<open>
  A pandas data frame is a mutable object, and a Python variable holds a reference to it:
  \<^verbatim>\<open>df["c"] = v\<close> changes the object for every holder of the reference, and
  \<^verbatim>\<open>df.copy()\<close> makes a new object. To state what a call does to the table of its
  caller, the functions are embedded a second time over a heap of frames: a list whose
  positions are the references. A function takes the reference of its argument and the
  heap, and returns its result (a reference or an exception) and the heap it leaves.
  Values are computed by the functions above; allocation, copying and column assignment
  are explicit.
\<close>

datatype frame =
    EventFrame "event dataframe"
  | BucketedFrame "bucketed_event dataframe"
  | StatFrame "stat_row list"
  | KpiFrame "kpi_row list"

type_synonym heap = "frame list"

text \<open>The table read at a reference. A bucketed table read as an event table loses its
  extra column; a reference to a KPI table reads as a table without columns.\<close>

fun the_events :: "frame \<Rightarrow> event dataframe" where
  "the_events (EventFrame d) = d"
| "the_events (BucketedFrame d) =
     \<lparr>columns = columns d,
      rows = map (\<lambda>e. \<lparr>route_id = route_id e, hour = hour e, delay_minutes = delay_minutes e\<rparr>)
               (rows d)\<rparr>"
| "the_events _ = \<lparr>columns = [], rows = []\<rparr>"

fun the_bucketed :: "frame \<Rightarrow> bucketed_event dataframe" where
  "the_bucketed (BucketedFrame d) = d"
| "the_bucketed _ = \<lparr>columns = [], rows = []\<rparr>"

fun the_stats :: "frame \<Rightarrow> stat_row list" where
  "the_stats (StatFrame rs) = rs"
| "the_stats _ = []"

definition alloc :: "frame \<Rightarrow> heap \<Rightarrow> nat \<times> heap" where
  "alloc f h = (length h, h @ [f])"

definition copy_frame :: "nat \<Rightarrow> heap \<Rightarrow> nat \<times> heap" where
  "copy_frame a h = alloc (h ! a) h"

text \<open>\<^verbatim>\<open>_add_reliability_score\<close>: \<^verbatim>\<open>kpis = kpis.copy()\<close> rebinds the local name to a new
  object, and \<^verbatim>\<open>kpis["reliability_score"] = score\<close> assigns the column in that object.\<close>

definition add_reliability_score_st :: "nat \<Rightarrow> heap \<Rightarrow> nat \<times> heap" where
  "add_reliability_score_st kpis h =
     (case copy_frame kpis h of
        (kpis', h1) \<Rightarrow>
          (kpis', h1[kpis' := KpiFrame (add_reliability_score (the_stats (h1 ! kpis')))]))"

text \<open>\<^verbatim>\<open>_add_time_of_day_bucket\<close>: the check, then \<^verbatim>\<open>df = df.copy()\<close>, then the labels are
  computed from the copy and assigned to its column \<^verbatim>\<open>time_of_day\<close>. An exception of
  \<^verbatim>\<open>_bucket\<close> leaves the copy behind.\<close>

definition add_time_of_day_bucket_st :: "nat \<Rightarrow> heap \<Rightarrow> (error + nat) \<times> heap" where
  "add_time_of_day_bucket_st df h =
     (if ''hour'' \<notin> set (columns (the_events (h ! df)))
      then (Inl (KeyError ''Dataframe must contain hour''), h)
      else case copy_frame df h of
        (df', h1) \<Rightarrow>
          (case apply_bucket (rows (the_events (h1 ! df'))) of
             Inl err \<Rightarrow> (Inl err, h1)
           | Inr bs \<Rightarrow>
               (Inr df',
                h1[df' := BucketedFrame
                     \<lparr>columns = set_column ''time_of_day'' (columns (the_events (h1 ! df'))),
                      rows = bs\<rparr>])))"

text \<open>\<^verbatim>\<open>df.groupby(by, dropna=False).apply(f)\<close> builds a new frame from the series that
  \<^verbatim>\<open>f\<close> returns, and \<^verbatim>\<open>reset_index()\<close> returns a new frame again. The argument
  \<open>rd\<close> reads the table at the reference.\<close>

definition groupby_apply_st ::
  "(frame \<Rightarrow> 'r dataframe) \<Rightarrow> string list \<Rightarrow> ('r \<Rightarrow> gkey)
     \<Rightarrow> ('r dataframe \<Rightarrow> error + kpi_series) \<Rightarrow> nat \<Rightarrow> heap \<Rightarrow> (error + nat) \<times> heap" where
  "groupby_apply_st rd by keyf f df h =
     (case groupby_apply by keyf f (rd (h ! df)) of
        Inl err \<Rightarrow> (Inl err, h)
      | Inr kpis \<Rightarrow>
          (case alloc (StatFrame kpis) h of
             (applied, h1) \<Rightarrow>
               (case alloc (h1 ! applied) h1 of
                  (kpis', h2) \<Rightarrow> (Inr kpis', h2))))"

definition compute_route_kpis_st :: "nat \<Rightarrow> real \<Rightarrow> heap \<Rightarrow> (error + nat) \<times> heap" where
  "compute_route_kpis_st df on_time_threshold_min h =
     (if ''route_id'' \<notin> set (columns (the_events (h ! df)))
         \<or> ''delay_minutes'' \<notin> set (columns (the_events (h ! df)))
      then (Inl (KeyError ''Dataframe must contain route_id and delay_minutes''), h)
      else case groupby_apply_st the_events [''route_id''] (\<lambda>e. RouteKey (route_id e))
                  (\<lambda>g. group_kpis g on_time_threshold_min) df h of
        (Inl err, h1) \<Rightarrow> (Inl err, h1)
      | (Inr kpis, h1) \<Rightarrow>
          (case add_reliability_score_st kpis h1 of (kpis', h2) \<Rightarrow> (Inr kpis', h2)))"

definition compute_route_hour_kpis_st :: "nat \<Rightarrow> real \<Rightarrow> heap \<Rightarrow> (error + nat) \<times> heap" where
  "compute_route_hour_kpis_st df on_time_threshold_min h =
     (if ''hour'' \<notin> set (columns (the_events (h ! df)))
      then (Inl (KeyError ''Dataframe must contain hour''), h)
      else case groupby_apply_st the_events [''route_id'', ''hour'']
                  (\<lambda>e. RouteHourKey (route_id e) (hour e))
                  (\<lambda>g. group_kpis g on_time_threshold_min) df h of
        (Inl err, h1) \<Rightarrow> (Inl err, h1)
      | (Inr kpis, h1) \<Rightarrow>
          (case add_reliability_score_st kpis h1 of (kpis', h2) \<Rightarrow> (Inr kpis', h2)))"

definition compute_route_period_kpis_st :: "nat \<Rightarrow> real \<Rightarrow> heap \<Rightarrow> (error + nat) \<times> heap" where
  "compute_route_period_kpis_st df on_time_threshold_min h =
     (case add_time_of_day_bucket_st df h of
        (Inl err, h1) \<Rightarrow> (Inl err, h1)
      | (Inr df_bucketed, h1) \<Rightarrow>
          (case groupby_apply_st the_bucketed [''route_id'', ''time_of_day'']
                  (\<lambda>e. RoutePeriodKey (route_id e) (time_of_day e))
                  (\<lambda>g. group_kpis g on_time_threshold_min) df_bucketed h1 of
             (Inl err, h2) \<Rightarrow> (Inl err, h2)
           | (Inr kpis, h2) \<Rightarrow>
               (case add_reliability_score_st kpis h2 of (kpis', h3) \<Rightarrow> (Inr kpis', h3))))"

subsection \<open>Worst routes\<close>





section \<open>Example tables\<close>

definition demo_group :: "event dataframe" where
  "demo_group =
     \<lparr>columns = [''route_id'', ''hour'', ''delay_minutes''],
      rows = [\<lparr>route_id = Some ''1'', hour = Fin 8, delay_minutes = Some 0.5\<rparr>,
              \<lparr>route_id = Some ''1'', hour = Fin 9, delay_minutes = None\<rparr>,
              \<lparr>route_id = Some ''1'', hour = Fin 9, delay_minutes = Some 2.0\<rparr>]\<rparr>"

definition demo_events :: "event dataframe" where
  "demo_events =
     \<lparr>columns = [''route_id'', ''hour'', ''delay_minutes''],
      rows = [\<lparr>route_id = Some ''2'', hour = Fin 22, delay_minutes = None\<rparr>,
              \<lparr>route_id = Some ''1'', hour = Fin 8, delay_minutes = Some 0.5\<rparr>,
              \<lparr>route_id = Some ''1'', hour = NaN, delay_minutes = Some 2.0\<rparr>]\<rparr>"






definition demo_ten :: "event dataframe" where
  "demo_ten =
     \<lparr>columns = [''route_id'', ''hour'', ''delay_minutes''],
      rows = map (\<lambda>d. \<lparr>route_id = Some ''7'', hour = Fin 12, delay_minutes = Some d\<rparr>)
               [3, 1, 2, 10, 9, 8, 7, 6, 5, 4]\<rparr>"



section \<open>Properties\<close>

subsection \<open>Reliability score\<close>

lemma row_score_eq:
  "row_score avg otr =
     Some (100 * (0.6 * (case otr of None \<Rightarrow> 0 | Some x \<Rightarrow> x)
                + 0.4 * (1 - (case avg of None \<Rightarrow> 1 | Some a \<Rightarrow> max 0 (min 10 a) / 10))))"
  by (cases avg; cases otr) (auto simp: row_score_def clip_def fillna_def Let_def min_def max_def)

text \<open>
  C1. Every row that \<^verbatim>\<open>_add_reliability_score\<close> produces carries
  \<open>100 * (0.6 * on_time + 0.4 * (1 - delay_penalty))\<close>, where \<open>on_time\<close> is the on-time
  rate with NaN read as 0 and \<open>delay_penalty\<close> is the average delay clamped to \<open>[0, 10]\<close>
  and divided by 10, with NaN read as 1. A row with average delay 15 and on-time rate 1.0
  gets the score 60.
\<close>

theorem reliability_score_formula:
  "map reliability_score (add_reliability_score kpis) =
     map (\<lambda>r. Some (100 * (0.6 * (case on_time_rate r of None \<Rightarrow> 0 | Some x \<Rightarrow> x)
                + 0.4 * (1 - (case avg_delay_min r of None \<Rightarrow> 1
                                | Some a \<Rightarrow> max 0 (min 10 a) / 10))))) kpis
   \<and> map reliability_score
        (add_reliability_score
           [\<lparr>avg_delay_min = Some 15, p90_delay_min = Some 20, on_time_rate = Some 1.0,
             n_events = 4, gkey = RouteKey (Some ''1'')\<rparr>]) = [Some 60]"
  by (simp add: add_reliability_score_def row_score_eq comp_def)

subsection \<open>Time-of-day bucket\<close>

lemma trunc_of_int [simp]: "trunc (of_int h) = h"
  by (simp add: trunc_def)

lemma bucket_of_int:
  "bucket (Fin (of_int h)) =
     Inr (if 7 \<le> h \<and> h < 10 then ''Morning peak''
          else if 10 \<le> h \<and> h < 16 then ''Midday''
          else if 16 \<le> h \<and> h < 19 then ''Evening peak''
          else ''Night / off-peak'')"
  by (simp add: bucket_def)

lemma bucket_8: "bucket (Fin 8) = Inr ''Morning peak''"
  using bucket_of_int [of 8] by simp

lemma bucket_22: "bucket (Fin 22) = Inr ''Night / off-peak''"
  using bucket_of_int [of 22] by simp

lemma bucket_NaN: "bucket NaN = Inr ''Unknown''"
  by (simp add: bucket_def)

text \<open>
  C5. On the integer hours 0 to 23 and on a null hour \<^verbatim>\<open>_bucket\<close> returns a label and
  never raises: hours in \<open>[7, 10)\<close> give "Morning peak", \<open>[10, 16)\<close> "Midday",
  \<open>[16, 19)\<close> "Evening peak", the hours 0 to 6 and 19 to 23 "Night / off-peak", a null
  hour "Unknown". Hour 8 is a morning-peak hour and hour 22 a night hour.
\<close>

theorem bucket_hours:
  "(h \<in> {7..<10} \<longrightarrow> bucket (Fin (of_int h)) = Inr ''Morning peak'')
 \<and> (h \<in> {10..<16} \<longrightarrow> bucket (Fin (of_int h)) = Inr ''Midday'')
 \<and> (h \<in> {16..<19} \<longrightarrow> bucket (Fin (of_int h)) = Inr ''Evening peak'')
 \<and> (h \<in> {0..6} \<union> {19..23} \<longrightarrow> bucket (Fin (of_int h)) = Inr ''Night / off-peak'')
 \<and> bucket NaN = Inr ''Unknown''
 \<and> bucket (Fin 8) = Inr ''Morning peak''
 \<and> bucket (Fin 22) = Inr ''Night / off-peak''"
  unfolding bucket_of_int bucket_8 bucket_22 bucket_NaN
  by (simp only: atLeastLessThan_iff atLeastAtMost_iff Un_iff) auto

theorem bucket_hours_witness:
  "(8::int) \<in> {7..<10} \<and> (12::int) \<in> {10..<16} \<and> (17::int) \<in> {16..<19}
   \<and> (3::int) \<in> {0..6} \<union> {19..23}
   \<and> bucket (Fin (of_int 8)) = Inr ''Morning peak''
   \<and> bucket (Fin (of_int 12)) = Inr ''Midday''
   \<and> bucket (Fin (of_int 17)) = Inr ''Evening peak''
   \<and> bucket (Fin (of_int 3)) = Inr ''Night / off-peak''"
  using bucket_hours [of 8] bucket_hours [of 12] bucket_hours [of 17] bucket_hours [of 3]
  by simp

text \<open>
  C10, as stated: \<^verbatim>\<open>_bucket\<close> is total on every numeric hour and never raises on
  numeric input. An infinite hour is a float that is not null, and \<^verbatim>\<open>int(h)\<close> raises
  OverflowError on it.
\<close>

theorem bucket_infinite_hour_raises:
  "PInf \<noteq> NaN \<and> bucket PInf = Inl OverflowError
   \<and> NInf \<noteq> NaN \<and> bucket NInf = Inl OverflowError"
  by (simp add: bucket_def)

lemma trunc_toward_zero: "\<bar>of_int (trunc x)\<bar> \<le> \<bar>x\<bar> \<and> \<bar>x - of_int (trunc x)\<bar> < 1"
  unfolding trunc_def by (cases "0 \<le> x") (simp_all, linarith+)

lemma bucket_Fin_trunc: "bucket (Fin x) = bucket (Fin (of_int (trunc x)))"
  by (simp add: bucket_def)

lemma bucket_Fin_total: "\<exists>s. bucket (Fin x) = Inr s"
  by (simp add: bucket_def)

lemma bucket_night:
  "trunc x < 7 \<or> 19 \<le> trunc x \<Longrightarrow> bucket (Fin x) = Inr ''Night / off-peak''"
  by (auto simp add: bucket_def)

lemma trunc_97: "trunc 9.7 = 9"
  by (simp add: trunc_def)

lemma bucket_97: "bucket (Fin 9.7) = Inr ''Morning peak''"
  unfolding bucket_Fin_trunc [of "9.7"] trunc_97 bucket_of_int by simp

lemma trunc_24: "trunc 24 = 24" "trunc (- 1) = - 1"
  using trunc_of_int [of 24] trunc_of_int [of "- 1"] by simp_all

text \<open>
  C10, amended: \<^verbatim>\<open>_bucket\<close> is total on every finite numeric hour. The hour is first
  truncated toward zero to an integer (the integer of no larger magnitude less than 1
  away), so 9.7 buckets as hour 9; every truncated value outside \<open>[7, 19)\<close>, such as
  \<open>-1\<close> or 24, is labelled "Night / off-peak".
\<close>

theorem bucket_total_on_finite:
  "(\<exists>s. bucket (Fin x) = Inr s)
 \<and> bucket (Fin x) = bucket (Fin (of_int (trunc x)))
 \<and> \<bar>of_int (trunc x)\<bar> \<le> \<bar>x\<bar> \<and> \<bar>x - of_int (trunc x)\<bar> < 1
 \<and> (trunc x < 7 \<or> 19 \<le> trunc x \<longrightarrow> bucket (Fin x) = Inr ''Night / off-peak'')
 \<and> trunc 9.7 = 9
 \<and> bucket (Fin 9.7) = Inr ''Morning peak''"
  using trunc_toward_zero [of x] bucket_Fin_trunc [of x] bucket_Fin_total [of x]
    bucket_night [of x] trunc_97 bucket_97
  by blast

theorem bucket_total_on_finite_witness:
  "(19::int) \<le> trunc 24 \<and> bucket (Fin 24) = Inr ''Night / off-peak''
   \<and> trunc (- 1) < 7 \<and> bucket (Fin (- 1)) = Inr ''Night / off-peak''"
  using bucket_total_on_finite [of 24] bucket_total_on_finite [of "- 1"]
  by (simp add: trunc_24)

subsection \<open>Group statistics\<close>

lemma dropna_Nil_iff: "dropna cs = [] \<longleftrightarrow> (\<forall>c\<in>set cs. c = None)"
  unfolding dropna_def by (induction cs) (auto split: option.splits)

lemma le_mean_bounds: "0 \<le> le_mean xs t \<and> le_mean xs t \<le> 1"
proof -
  have "length (filter (\<lambda>d. d \<le> t) xs) \<le> length xs" by simp
  then have "real (length (filter (\<lambda>d. d \<le> t) xs)) \<le> real (length xs)" by linarith
  then show ?thesis
    unfolding le_mean_def by (simp add: divide_le_eq_1)
qed

lemma le_mean_mono:
  assumes "t1 \<le> t2"
  shows "le_mean xs t1 \<le> le_mean xs t2"
proof -
  have "filter (\<lambda>d. d \<le> t1) xs = filter (\<lambda>d. d \<le> t1) (filter (\<lambda>d. d \<le> t2) xs)"
    using assms by (induction xs) auto
  then have "length (filter (\<lambda>d. d \<le> t1) xs) \<le> length (filter (\<lambda>d. d \<le> t2) xs)"
    by (metis length_filter_le)
  then show ?thesis
    unfolding le_mean_def by (simp add: divide_right_mono)
qed

lemma group_kpis_nonempty:
  assumes "''delay_minutes'' \<in> set (columns g)" and "dropna (map delay_minutes (rows g)) \<noteq> []"
  shows "group_kpis g t =
     Inr \<lparr>avg_delay_min = Some (mean (dropna (map delay_minutes (rows g)))),
          p90_delay_min = Some (quantile 0.9 (dropna (map delay_minutes (rows g)))),
          on_time_rate = Some (le_mean (dropna (map delay_minutes (rows g))) t),
          n_events = length (dropna (map delay_minutes (rows g)))\<rparr>"
  using assms by (simp add: group_kpis_def Let_def)

lemma group_kpis_empty:
  assumes "''delay_minutes'' \<in> set (columns g)" and "dropna (map delay_minutes (rows g)) = []"
  shows "group_kpis g t =
     Inr \<lparr>avg_delay_min = None, p90_delay_min = None, on_time_rate = None, n_events = 0\<rparr>"
  using assms by (simp add: group_kpis_def Let_def)

lemma group_kpis_missing:
  "''delay_minutes'' \<notin> set (columns g) \<Longrightarrow> group_kpis g t = Inl (KeyError ''delay_minutes'')"
  by (simp add: group_kpis_def)

text \<open>
  C7. For a group with at least one non-null delay, \<^verbatim>\<open>on_time_rate\<close> is the number
  of non-null delays that are at most the threshold (a delay equal to the threshold counts)
  divided by the number of non-null delays, and it does not decrease when the threshold
  grows.
\<close>

theorem on_time_rate_monotone:
  assumes "''delay_minutes'' \<in> set (columns g)"
    and "dropna (map delay_minutes (rows g)) = ds" and "ds \<noteq> []" and "t1 \<le> t2"
  shows "\<exists>s1 s2 r1 r2. group_kpis g t1 = Inr s1 \<and> group_kpis g t2 = Inr s2
           \<and> on_time_rate s1 = Some r1 \<and> on_time_rate s2 = Some r2
           \<and> r1 = real (card {i. i < length ds \<and> ds ! i \<le> t1}) / real (length ds)
           \<and> r1 \<le> r2"
  using assms le_mean_mono [of t1 t2 ds]
  by (simp add: group_kpis_nonempty le_mean_def length_filter_conv_card)

lemma demo_group_delays: "dropna (map delay_minutes (rows demo_group)) = [0.5, 2.0]"
  by (simp add: demo_group_def dropna_def)

theorem on_time_rate_monotone_witness:
  "''delay_minutes'' \<in> set (columns demo_group)
   \<and> dropna (map delay_minutes (rows demo_group)) = [0.5, 2.0] \<and> [0.5, 2.0 :: real] \<noteq> []
   \<and> (1::real) \<le> 2
   \<and> (\<exists>s1 s2 r1 r2. group_kpis demo_group 1 = Inr s1 \<and> group_kpis demo_group 2 = Inr s2
           \<and> on_time_rate s1 = Some r1 \<and> on_time_rate s2 = Some r2
           \<and> r1 = real (card {i. i < length [0.5, 2.0 :: real] \<and> [0.5, 2.0 :: real] ! i \<le> 1})
                    / real (length [0.5, 2.0 :: real])
           \<and> r1 \<le> r2)"
proof -
  have c: "''delay_minutes'' \<in> set (columns demo_group)" by (simp add: demo_group_def)
  have n: "[0.5, 2.0 :: real] \<noteq> []" by simp
  have l: "(1::real) \<le> 2" by simp
  show ?thesis
    using on_time_rate_monotone [OF c demo_group_delays n l] c demo_group_delays by simp
qed

subsection \<open>Grouping and the KPI tables\<close>

lemma set_insert_key: "set (insert_key k ks) = insert k (set ks)"
  by (induction ks) auto

lemma set_group_keys: "set (group_keys keyf rs) = keyf ` set rs"
proof -
  have "set (foldr insert_key ks []) = set ks" for ks
    by (induction ks) (simp_all add: set_insert_key)
  then show ?thesis by (simp add: group_keys_def)
qed

lemma group_kpis_total:
  "''delay_minutes'' \<in> set (columns g) \<Longrightarrow> \<exists>s. group_kpis g t = Inr s"
  by (auto simp add: group_kpis_def Let_def)

lemma apply_groups_group_kpis:
  assumes "''delay_minutes'' \<in> set (columns df)"
  shows "\<exists>rs. apply_groups (\<lambda>g. group_kpis g t) keyf df ks = Inr rs
     \<and> map gkey rs = ks
     \<and> (\<forall>r\<in>set rs. group_kpis \<lparr>columns = columns df,
                               rows = filter (\<lambda>e. keyf e = gkey r) (rows df)\<rparr> t
                      = Inr \<lparr>avg_delay_min = avg_delay_min r, p90_delay_min = p90_delay_min r,
                             on_time_rate = on_time_rate r, n_events = n_events r\<rparr>)"
proof (induction ks)
  case Nil
  then show ?case by simp
next
  case (Cons k ks)
  then obtain rs where rs: "apply_groups (\<lambda>g. group_kpis g t) keyf df ks = Inr rs"
    "map gkey rs = ks"
    "\<forall>r\<in>set rs. group_kpis \<lparr>columns = columns df,
                               rows = filter (\<lambda>e. keyf e = gkey r) (rows df)\<rparr> t
                      = Inr \<lparr>avg_delay_min = avg_delay_min r, p90_delay_min = p90_delay_min r,
                             on_time_rate = on_time_rate r, n_events = n_events r\<rparr>"
    by blast
  obtain s where s: "group_kpis \<lparr>columns = columns df,
                               rows = filter (\<lambda>e. keyf e = k) (rows df)\<rparr> t = Inr s"
    using assms group_kpis_total [of "\<lparr>columns = columns df,
                               rows = filter (\<lambda>e. keyf e = k) (rows df)\<rparr>" t]
    by auto
  show ?case
    using rs s by simp
qed

lemma apply_groups_missing:
  assumes "''delay_minutes'' \<notin> set (columns df)" and "ks \<noteq> []"
  shows "apply_groups (\<lambda>g. group_kpis g t) keyf df ks = Inl (KeyError ''delay_minutes'')"
  using assms by (cases ks) (simp_all add: group_kpis_def)

lemma group_keys_Nil_iff: "group_keys keyf rs = [] \<longleftrightarrow> rs = []"
  using set_group_keys [of keyf rs] by (metis image_is_empty set_empty)


lemma group_kpis_series:
  assumes "group_kpis g t = Inr s"
  shows "(avg_delay_min s = None \<and> p90_delay_min s = None \<and> on_time_rate s = None \<and> n_events s = 0)
       \<or> (\<exists>a p r. avg_delay_min s = Some a \<and> p90_delay_min s = Some p \<and> on_time_rate s = Some r
              \<and> 0 \<le> r \<and> r \<le> 1 \<and> 0 < n_events s)"
  using assms le_mean_bounds [of "dropna (map delay_minutes (rows g))" t]
  by (auto simp add: group_kpis_def Let_def split: if_splits)

lemma groupby_apply_rows:
  assumes "groupby_apply by keyf (\<lambda>g. group_kpis g t) df = Inr kpis"
  shows "''delay_minutes'' \<in> set (columns df) \<and> rows df \<noteq> []
     \<and> map gkey kpis = group_keys keyf (rows df)
     \<and> (\<forall>r\<in>set kpis. group_kpis \<lparr>columns = columns df,
                               rows = filter (\<lambda>e. keyf e = gkey r) (rows df)\<rparr> t
                      = Inr \<lparr>avg_delay_min = avg_delay_min r, p90_delay_min = p90_delay_min r,
                             on_time_rate = on_time_rate r, n_events = n_events r\<rparr>)"
proof -
  from assms have ne: "rows df \<noteq> []"
    and ag: "apply_groups (\<lambda>g. group_kpis g t) keyf df (group_keys keyf (rows df)) = Inr kpis"
    by (auto simp add: groupby_apply_def split: option.splits if_splits)
  have col: "''delay_minutes'' \<in> set (columns df)"
  proof (rule ccontr)
    assume "''delay_minutes'' \<notin> set (columns df)"
    then have "apply_groups (\<lambda>g. group_kpis g t) keyf df (group_keys keyf (rows df))
                 = Inl (KeyError ''delay_minutes'')"
      using ne by (simp add: apply_groups_missing group_keys_Nil_iff)
    with ag show False by simp
  qed
  show ?thesis
    using apply_groups_group_kpis [OF col, of t keyf "group_keys keyf (rows df)"] ag ne col
    by auto
qed

lemma row_score_range:
  assumes "otr = None \<or> (\<exists>r. otr = Some r \<and> 0 \<le> r \<and> r \<le> 1)"
  shows "\<exists>s. row_score avg otr = Some s \<and> 0 \<le> s \<and> s \<le> 100"
proof -
  have pen: "0 \<le> (case avg of None \<Rightarrow> 1 | Some a \<Rightarrow> max 0 (min 10 a) / 10)
           \<and> (case avg of None \<Rightarrow> 1 | Some a \<Rightarrow> max 0 (min 10 a) / 10) \<le> (1::real)"
    by (cases avg) (auto simp add: min_def max_def)
  have ot: "0 \<le> (case otr of None \<Rightarrow> 0 | Some x \<Rightarrow> x) \<and> (case otr of None \<Rightarrow> 0 | Some x \<Rightarrow> x) \<le> (1::real)"
    using assms by auto
  define p where "p = (case avg of None \<Rightarrow> 1 | Some a \<Rightarrow> max 0 (min 10 a) / (10::real))"
  define x where "x = (case otr of None \<Rightarrow> 0 | Some x \<Rightarrow> (x::real))"
  have b: "0 \<le> p" "p \<le> 1" "0 \<le> x" "x \<le> 1"
    using pen ot unfolding p_def x_def by simp_all
  have "0 \<le> 100 * (0.6 * x + 0.4 * (1 - p))" "100 * (0.6 * x + 0.4 * (1 - p)) \<le> 100"
    using b by (simp_all add: field_simps)
  then show ?thesis
    unfolding row_score_eq p_def x_def by blast
qed

lemma row_score_undefined: "row_score None None = Some 0"
  by (simp add: row_score_eq)

lemma scored_rows:
  assumes "groupby_apply by keyf (\<lambda>g. group_kpis g t) df = Inr kpis"
    and "r \<in> set (add_reliability_score kpis)"
  shows "\<exists>s. reliability_score r = Some s \<and> 0 \<le> s \<and> s \<le> 100 \<and> (n_events r = 0 \<longrightarrow> s = 0)"
proof -
  from assms(2) obtain r0 where r0: "r0 \<in> set kpis"
    and r: "r = \<lparr>avg_delay_min = avg_delay_min r0, p90_delay_min = p90_delay_min r0,
               on_time_rate = on_time_rate r0, n_events = n_events r0, gkey = gkey r0,
               reliability_score = row_score (avg_delay_min r0) (on_time_rate r0)\<rparr>"
    by (auto simp add: add_reliability_score_def)
  let ?s = "\<lparr>avg_delay_min = avg_delay_min r0, p90_delay_min = p90_delay_min r0,
             on_time_rate = on_time_rate r0, n_events = n_events r0\<rparr>"
  have "group_kpis \<lparr>columns = columns df,
                    rows = filter (\<lambda>e. keyf e = gkey r0) (rows df)\<rparr> t = Inr ?s"
    using groupby_apply_rows [OF assms(1)] r0 by blast
  from group_kpis_series [OF this]
  have inv: "(avg_delay_min r0 = None \<and> on_time_rate r0 = None \<and> n_events r0 = 0)
       \<or> (\<exists>a x. avg_delay_min r0 = Some a \<and> on_time_rate r0 = Some x
              \<and> 0 \<le> x \<and> x \<le> 1 \<and> 0 < n_events r0)"
    by auto
  then have "on_time_rate r0 = None \<or> (\<exists>x. on_time_rate r0 = Some x \<and> 0 \<le> x \<and> x \<le> 1)"
    by auto
  from row_score_range [OF this, of "avg_delay_min r0"]
  obtain s where s: "row_score (avg_delay_min r0) (on_time_rate r0) = Some s" "0 \<le> s" "s \<le> 100"
    by blast
  have "n_events r0 = 0 \<longrightarrow> s = 0"
    using inv s(1) row_score_undefined by auto
  then show ?thesis
    using s r by simp
qed

lemma scored_rows_nonempty:
  assumes "groupby_apply by keyf (\<lambda>g. group_kpis g t) df = Inr kpis"
  shows "add_reliability_score kpis \<noteq> []"
proof -
  have "map gkey kpis = group_keys keyf (rows df)" and "rows df \<noteq> []"
    using groupby_apply_rows [OF assms] by simp_all
  then have "map gkey kpis \<noteq> []"
    by (simp add: group_keys_Nil_iff)
  then show ?thesis
    by (simp add: add_reliability_score_def)
qed

lemma groupby_apply_total:
  assumes "missing_label by (columns df) = None" and "''delay_minutes'' \<in> set (columns df)"
    and "rows df \<noteq> []"
  shows "\<exists>kpis. groupby_apply by keyf (\<lambda>g. group_kpis g t) df = Inr kpis"
  using assms apply_groups_group_kpis [OF assms(2), of t keyf "group_keys keyf (rows df)"]
  by (auto simp add: groupby_apply_def)

lemma apply_bucket_total:
  assumes "\<forall>e\<in>set es. hour e \<noteq> PInf \<and> hour e \<noteq> NInf"
  shows "\<exists>bs. apply_bucket es = Inr bs \<and> length bs = length es"
  using assms
proof (induction es)
  case Nil
  then show ?case by simp
next
  case (Cons e es)
  then obtain bs where bs: "apply_bucket es = Inr bs" "length bs = length es"
    by auto
  have "\<exists>b. bucket (hour e) = Inr b"
    using Cons.prems bucket_Fin_total bucket_NaN by (cases "hour e") auto
  then show ?case
    using bs by auto
qed

lemma kpi_tables_total:
  assumes "''route_id'' \<in> set (columns df)" and "''hour'' \<in> set (columns df)"
    and "''delay_minutes'' \<in> set (columns df)" and "rows df \<noteq> []"
  shows "\<exists>k. compute_route_kpis df t = Inr k" "\<exists>k. compute_route_hour_kpis df t = Inr k"
    "(\<forall>e\<in>set (rows df). hour e \<noteq> PInf \<and> hour e \<noteq> NInf)
       \<Longrightarrow> \<exists>k. compute_route_period_kpis df t = Inr k"
proof -
  show "\<exists>k. compute_route_kpis df t = Inr k"
    using assms groupby_apply_total [of "[''route_id'']" df "\<lambda>e. RouteKey (route_id e)" t]
    by (auto simp add: compute_route_kpis_def)
  show "\<exists>k. compute_route_hour_kpis df t = Inr k"
    using assms groupby_apply_total [of "[''route_id'', ''hour'']" df
        "\<lambda>e. RouteHourKey (route_id e) (hour e)" t]
    by (auto simp add: compute_route_hour_kpis_def)
  assume "\<forall>e\<in>set (rows df). hour e \<noteq> PInf \<and> hour e \<noteq> NInf"
  then obtain bs where bs: "apply_bucket (rows df) = Inr bs" "length bs = length (rows df)"
    using apply_bucket_total by blast
  let ?b = "\<lparr>columns = set_column ''time_of_day'' (columns df), rows = bs\<rparr>"
  have b: "add_time_of_day_bucket df = Inr ?b"
    using assms(2) bs(1) by (simp add: add_time_of_day_bucket_def)
  have "bs \<noteq> []"
    using bs(2) assms(4) by auto
  then have "\<exists>kpis. groupby_apply [''route_id'', ''time_of_day'']
                (\<lambda>e. RoutePeriodKey (route_id e) (time_of_day e)) (\<lambda>g. group_kpis g t) ?b
              = Inr kpis"
    using assms(1,3)
    by (intro groupby_apply_total) (simp_all add: set_column_def)
  then show "\<exists>k. compute_route_period_kpis df t = Inr k"
    using b by (auto simp add: compute_route_period_kpis_def)
qed

text \<open>
  C2. Every row that \<^verbatim>\<open>compute_route_kpis\<close>, \<^verbatim>\<open>compute_route_hour_kpis\<close> or
  \<^verbatim>\<open>compute_route_period_kpis\<close> returns has a reliability score that is a number
  (never NaN) between 0 and 100, and the score of a row whose group has no non-null delay
  (\<open>n_events = 0\<close>) is exactly 0. A returned table has at least one row, and the three
  operations do return a table on every input that has the three columns and at least one
  row (the route+period operation: when no hour is infinite).
\<close>

theorem reliability_score_defined_in_range:
  "(compute_route_kpis df t = Inr kpis \<or> compute_route_hour_kpis df t = Inr kpis
      \<or> compute_route_period_kpis df t = Inr kpis
     \<longrightarrow> kpis \<noteq> []
       \<and> (\<forall>r\<in>set kpis. \<exists>s. reliability_score r = Some s \<and> 0 \<le> s \<and> s \<le> 100
               \<and> (n_events r = 0 \<longrightarrow> s = 0)))
 \<and> (''route_id'' \<in> set (columns df) \<and> ''hour'' \<in> set (columns df)
      \<and> ''delay_minutes'' \<in> set (columns df) \<and> rows df \<noteq> []
     \<longrightarrow> (\<exists>k. compute_route_kpis df t = Inr k)
       \<and> (\<exists>k. compute_route_hour_kpis df t = Inr k)
       \<and> ((\<forall>e\<in>set (rows df). hour e \<noteq> PInf \<and> hour e \<noteq> NInf)
            \<longrightarrow> (\<exists>k. compute_route_period_kpis df t = Inr k)))"
proof (intro conjI impI)
  assume a: "compute_route_kpis df t = Inr kpis \<or> compute_route_hour_kpis df t = Inr kpis
      \<or> compute_route_period_kpis df t = Inr kpis"
  then show "kpis \<noteq> []"
    by (auto simp add: compute_route_kpis_def compute_route_hour_kpis_def
        compute_route_period_kpis_def split: if_splits sum.splits dest: scored_rows_nonempty)
  from a show "\<forall>r\<in>set kpis. \<exists>s. reliability_score r = Some s \<and> 0 \<le> s \<and> s \<le> 100
               \<and> (n_events r = 0 \<longrightarrow> s = 0)"
    by (auto simp add: compute_route_kpis_def compute_route_hour_kpis_def
        compute_route_period_kpis_def split: if_splits sum.splits dest: scored_rows)
next
  assume "''route_id'' \<in> set (columns df) \<and> ''hour'' \<in> set (columns df)
      \<and> ''delay_minutes'' \<in> set (columns df) \<and> rows df \<noteq> []"
  then show "\<exists>k. compute_route_kpis df t = Inr k" "\<exists>k. compute_route_hour_kpis df t = Inr k"
    using kpi_tables_total(1,2) [of df t] by simp_all
next
  assume "''route_id'' \<in> set (columns df) \<and> ''hour'' \<in> set (columns df)
      \<and> ''delay_minutes'' \<in> set (columns df) \<and> rows df \<noteq> []"
    and "\<forall>e\<in>set (rows df). hour e \<noteq> PInf \<and> hour e \<noteq> NInf"
  then show "\<exists>k. compute_route_period_kpis df t = Inr k"
    using kpi_tables_total(3) [of df t] by simp
qed

lemma quantile_pair: "quantile (9 / 10) [1 / 2, 2] = 37 / 20"
  by (simp add: quantile_def Let_def)

lemma demo_route_kpis:
  "compute_route_kpis demo_events 1 =
     Inr [\<lparr>avg_delay_min = Some 1.25, p90_delay_min = Some 1.85, on_time_rate = Some 0.5,
           n_events = 2, gkey = RouteKey (Some ''1''), reliability_score = Some 65\<rparr>,
          \<lparr>avg_delay_min = None, p90_delay_min = None, on_time_rate = None,
           n_events = 0, gkey = RouteKey (Some ''2''), reliability_score = Some 0\<rparr>]"
  by (simp add: compute_route_kpis_def demo_events_def groupby_apply_def group_keys_def
        group_kpis_def dropna_def mean_def le_mean_def quantile_pair add_reliability_score_def
        row_score_eq Let_def)

lemma quantile_single: "quantile q [x] = x"
  by (simp add: quantile_def Let_def)

lemma demo_route_hour_kpis:
  "compute_route_hour_kpis demo_events 1 =
     Inr [\<lparr>avg_delay_min = Some 0.5, p90_delay_min = Some 0.5, on_time_rate = Some 1,
           n_events = 1, gkey = RouteHourKey (Some ''1'') (Fin 8), reliability_score = Some 98\<rparr>,
          \<lparr>avg_delay_min = Some 2, p90_delay_min = Some 2, on_time_rate = Some 0,
           n_events = 1, gkey = RouteHourKey (Some ''1'') NaN, reliability_score = Some 32\<rparr>,
          \<lparr>avg_delay_min = None, p90_delay_min = None, on_time_rate = None,
           n_events = 0, gkey = RouteHourKey (Some ''2'') (Fin 22), reliability_score = Some 0\<rparr>]"
  by (simp add: compute_route_hour_kpis_def demo_events_def groupby_apply_def group_keys_def
        group_kpis_def dropna_def mean_def le_mean_def quantile_single add_reliability_score_def
        row_score_eq Let_def)

lemma demo_route_period_kpis:
  "compute_route_period_kpis demo_events 1 =
     Inr [\<lparr>avg_delay_min = Some 0.5, p90_delay_min = Some 0.5, on_time_rate = Some 1,
           n_events = 1, gkey = RoutePeriodKey (Some ''1'') ''Morning peak'',
           reliability_score = Some 98\<rparr>,
          \<lparr>avg_delay_min = Some 2, p90_delay_min = Some 2, on_time_rate = Some 0,
           n_events = 1, gkey = RoutePeriodKey (Some ''1'') ''Unknown'',
           reliability_score = Some 32\<rparr>,
          \<lparr>avg_delay_min = None, p90_delay_min = None, on_time_rate = None,
           n_events = 0, gkey = RoutePeriodKey (Some ''2'') ''Night / off-peak'',
           reliability_score = Some 0\<rparr>]"
  by (simp add: compute_route_period_kpis_def add_time_of_day_bucket_def set_column_def
        bucket_8 bucket_22 bucket_NaN
        demo_events_def groupby_apply_def group_keys_def
        group_kpis_def dropna_def mean_def le_mean_def quantile_single add_reliability_score_def
        row_score_eq Let_def)

lemma demo_events_valid:
  "''route_id'' \<in> set (columns demo_events)" "''hour'' \<in> set (columns demo_events)"
  "''delay_minutes'' \<in> set (columns demo_events)" "rows demo_events \<noteq> []"
  "list_all (\<lambda>e. hour e \<noteq> PInf \<and> hour e \<noteq> NInf) (rows demo_events)"
  by (simp_all add: demo_events_def)

theorem reliability_score_defined_in_range_witness:
  "''route_id'' \<in> set (columns demo_events) \<and> ''hour'' \<in> set (columns demo_events)
   \<and> ''delay_minutes'' \<in> set (columns demo_events) \<and> rows demo_events \<noteq> []
   \<and> list_all (\<lambda>e. hour e \<noteq> PInf \<and> hour e \<noteq> NInf) (rows demo_events)
   \<and> (\<exists>k1 k2 k3.
         compute_route_kpis demo_events 1 = Inr k1
       \<and> compute_route_hour_kpis demo_events 1 = Inr k2
       \<and> compute_route_period_kpis demo_events 1 = Inr k3
       \<and> map gkey k1 = [RouteKey (Some ''1''), RouteKey (Some ''2'')]
       \<and> map gkey k2 = [RouteHourKey (Some ''1'') (Fin 8), RouteHourKey (Some ''1'') NaN,
                         RouteHourKey (Some ''2'') (Fin 22)]
       \<and> map gkey k3 = [RoutePeriodKey (Some ''1'') ''Morning peak'',
                         RoutePeriodKey (Some ''1'') ''Unknown'',
                         RoutePeriodKey (Some ''2'') ''Night / off-peak'']
       \<and> map n_events k1 = [2, 0] \<and> map n_events k2 = [1, 1, 0] \<and> map n_events k3 = [1, 1, 0]
       \<and> map reliability_score k1 = [Some 65, Some 0]
       \<and> map reliability_score k2 = [Some 98, Some 32, Some 0]
       \<and> map reliability_score k3 = [Some 98, Some 32, Some 0]
       \<and> list_all (\<lambda>r. \<exists>s. reliability_score r = Some s \<and> 0 \<le> s \<and> s \<le> 100
                           \<and> (s = 0 \<or> 0 < n_events r)) (k1 @ k2 @ k3))"
proof -
  have "(\<exists>k. compute_route_kpis demo_events 1 = Inr k)
      \<and> (\<exists>k. compute_route_hour_kpis demo_events 1 = Inr k)
      \<and> (\<exists>k. compute_route_period_kpis demo_events 1 = Inr k)"
    using reliability_score_defined_in_range [of demo_events 1 "[]", THEN conjunct2]
      demo_events_valid
    by (simp add: list_all_iff)
  then obtain k1 k2 k3 where k: "compute_route_kpis demo_events 1 = Inr k1"
    "compute_route_hour_kpis demo_events 1 = Inr k2"
    "compute_route_period_kpis demo_events 1 = Inr k3"
    by blast
  have r: "list_all (\<lambda>r. \<exists>s. reliability_score r = Some s \<and> 0 \<le> s \<and> s \<le> 100
                           \<and> (s = 0 \<or> 0 < n_events r)) (k1 @ k2 @ k3)"
    using reliability_score_defined_in_range [of demo_events 1 k1]
      reliability_score_defined_in_range [of demo_events 1 k2]
      reliability_score_defined_in_range [of demo_events 1 k3] k
    by (auto simp add: list_all_iff)
  have v: "k1 = projr (compute_route_kpis demo_events 1)"
    "k2 = projr (compute_route_hour_kpis demo_events 1)"
    "k3 = projr (compute_route_period_kpis demo_events 1)"
    using k by simp_all
  show ?thesis
    using k r demo_events_valid
    unfolding v demo_route_kpis demo_route_hour_kpis demo_route_period_kpis
    by simp
qed

lemma empty_route_row:
  assumes "''route_id'' \<in> set (columns df)" and "''delay_minutes'' \<in> set (columns df)"
    and "e \<in> set (rows df)"
    and "\<forall>e'\<in>set (rows df). route_id e' = route_id e \<longrightarrow> delay_minutes e' = None"
  shows "\<exists>kpis r. compute_route_kpis df t = Inr kpis \<and> r \<in> set kpis
           \<and> gkey r = RouteKey (route_id e) \<and> avg_delay_min r = None \<and> p90_delay_min r = None
           \<and> on_time_rate r = None \<and> n_events r = 0 \<and> reliability_score r = Some 0"
proof -
  let ?kf = "\<lambda>e. RouteKey (route_id e)"
  let ?ks = "group_keys ?kf (rows df)"
  obtain rs where rs: "apply_groups (\<lambda>g. group_kpis g t) ?kf df ?ks = Inr rs"
    "map gkey rs = ?ks"
    "\<forall>r\<in>set rs. group_kpis \<lparr>columns = columns df,
                               rows = filter (\<lambda>e. ?kf e = gkey r) (rows df)\<rparr> t
                      = Inr \<lparr>avg_delay_min = avg_delay_min r, p90_delay_min = p90_delay_min r,
                             on_time_rate = on_time_rate r, n_events = n_events r\<rparr>"
    using apply_groups_group_kpis [OF assms(2), of t ?kf ?ks] by blast
  have "?kf e \<in> set ?ks"
    using assms(3) by (simp add: set_group_keys)
  then have "?kf e \<in> gkey ` set rs"
    using rs(2) by (metis set_map)
  then obtain r0 where r0: "r0 \<in> set rs" "gkey r0 = RouteKey (route_id e)"
    by auto
  have "dropna (map delay_minutes (filter (\<lambda>e'. ?kf e' = gkey r0) (rows df))) = []"
    using assms(4) r0(2) by (simp add: dropna_Nil_iff)
  then have "group_kpis \<lparr>columns = columns df,
                rows = filter (\<lambda>e'. ?kf e' = gkey r0) (rows df)\<rparr> t
            = Inr \<lparr>avg_delay_min = None, p90_delay_min = None, on_time_rate = None, n_events = 0\<rparr>"
    using assms(2) by (simp add: group_kpis_empty)
  with rs(3) r0(1)
  have none: "avg_delay_min r0 = None" "p90_delay_min r0 = None" "on_time_rate r0 = None"
    "n_events r0 = 0"
    by auto
  have ne: "rows df \<noteq> []"
    using assms(3) by auto
  have res: "compute_route_kpis df t = Inr (add_reliability_score rs)"
    using assms(1,2) ne rs(1) by (simp add: compute_route_kpis_def groupby_apply_def)
  let ?r = "\<lparr>avg_delay_min = avg_delay_min r0, p90_delay_min = p90_delay_min r0,
             on_time_rate = on_time_rate r0, n_events = n_events r0, gkey = gkey r0,
             reliability_score = row_score (avg_delay_min r0) (on_time_rate r0)\<rparr>"
  have "?r \<in> set (add_reliability_score rs)"
    using r0(1) by (auto simp add: add_reliability_score_def)
  then show ?thesis
    using res none r0(2) row_score_undefined
    by (intro exI [of _ "add_reliability_score rs"] exI [of _ ?r]) simp
qed

text \<open>
  C3. For a group without any non-null delay \<^verbatim>\<open>_group_kpis\<close> returns, without raising,
  NaN for the average, the 90th percentile and the on-time rate, and \<open>n_events = 0\<close>; and
  these values reach the output table: the route-level table has a row for every route
  all of whose delays are null, with the three statistics NaN and \<open>n_events = 0\<close>.
\<close>

theorem empty_partition_undefined:
  "(''delay_minutes'' \<in> set (columns g) \<and> dropna (map delay_minutes (rows g)) = []
      \<longrightarrow> group_kpis g t =
            Inr \<lparr>avg_delay_min = None, p90_delay_min = None, on_time_rate = None, n_events = 0\<rparr>)
 \<and> (''route_id'' \<in> set (columns df) \<and> ''delay_minutes'' \<in> set (columns df)
      \<and> e \<in> set (rows df)
      \<and> (\<forall>e'\<in>set (rows df). route_id e' = route_id e \<longrightarrow> delay_minutes e' = None)
      \<longrightarrow> (\<exists>kpis r. compute_route_kpis df t = Inr kpis \<and> r \<in> set kpis
             \<and> gkey r = RouteKey (route_id e) \<and> avg_delay_min r = None
             \<and> p90_delay_min r = None \<and> on_time_rate r = None \<and> n_events r = 0))"
  using group_kpis_empty [of g t] empty_route_row [of df e t]
  by blast


lemma demo_events_cols:
  "''route_id'' \<in> set (columns demo_events)" "''delay_minutes'' \<in> set (columns demo_events)"
  by (simp_all add: demo_events_def)

lemma demo_events_route2:
  "\<lparr>route_id = Some ''2'', hour = Fin 22, delay_minutes = None\<rparr> \<in> set (rows demo_events)"
  "\<forall>e'\<in>set (rows demo_events).
     route_id e' = route_id \<lparr>route_id = Some ''2'', hour = Fin 22, delay_minutes = None\<rparr>
       \<longrightarrow> delay_minutes e' = None"
  by (simp_all add: demo_events_def)

lemma demo_events_group2:
  "''delay_minutes'' \<in> set (columns (demo_events\<lparr>rows := [hd (rows demo_events)]\<rparr>))
   \<and> dropna (map delay_minutes (rows (demo_events\<lparr>rows := [hd (rows demo_events)]\<rparr>))) = []"
  by (simp add: demo_events_def dropna_def)

theorem empty_partition_undefined_witness:
  "group_kpis (demo_events\<lparr>rows := [hd (rows demo_events)]\<rparr>) 1 =
     Inr \<lparr>avg_delay_min = None, p90_delay_min = None, on_time_rate = None, n_events = 0\<rparr>
   \<and> (\<exists>kpis r. compute_route_kpis demo_events 1 = Inr kpis \<and> r \<in> set kpis
         \<and> gkey r = RouteKey (Some ''2'') \<and> avg_delay_min r = None
         \<and> p90_delay_min r = None \<and> on_time_rate r = None \<and> n_events r = 0)"
  using empty_partition_undefined [of "demo_events\<lparr>rows := [hd (rows demo_events)]\<rparr>" 1
      demo_events "\<lparr>route_id = Some ''2'', hour = Fin 22, delay_minutes = None\<rparr>"]
    demo_events_cols demo_events_route2 demo_events_group2
  by simp










subsection \<open>The 90th percentile\<close>

lemma floor_nat_div10: "nat \<lfloor>real a / 10\<rfloor> = a div 10"
proof -
  have "\<lfloor>real a / real 10\<rfloor> = int (a div 10)"
    by (rule floor_divide_of_nat_eq)
  then show ?thesis by simp
qed

lemma ceiling_nat_div10: "nat \<lceil>real a / 10\<rceil> = (if a mod 10 = 0 then a div 10 else Suc (a div 10))"
proof -
  have a: "real a = 10 * real (a div 10) + real (a mod 10)"
    by (metis mult_div_mod_eq of_nat_add of_nat_mult of_nat_numeral)
  have m: "a mod 10 < 10" by simp
  show ?thesis
  proof (cases "a mod 10 = 0")
    case True
    then have "real a / 10 = real (a div 10)" using a by simp
    then show ?thesis using True by simp
  next
    case False
    then have "0 < real (a mod 10)" "real (a mod 10) < 10" using m by simp_all
    then have "real (a div 10) < real a / 10" "real a / 10 \<le> real (a div 10) + 1"
      using a by simp_all
    then have "\<lceil>real a / 10\<rceil> = int (a div 10) + 1"
      by (intro ceiling_unique) simp_all
    then show ?thesis using False by simp
  qed
qed

lemma frac_div10: "real a / 10 - real (a div 10) = real (a mod 10) / 10"
proof -
  have "real a = 10 * real (a div 10) + real (a mod 10)"
    by (metis mult_div_mod_eq of_nat_add of_nat_mult of_nat_numeral)
  then have "real a / 10 = real (a div 10) + real (a mod 10) / 10"
    by argo
  then show ?thesis by argo
qed

lemma quantile_divmod:
  "quantile 0.9 xs =
     sort xs ! ((9 * (length xs - 1)) div 10)
     + (sort xs ! (if (9 * (length xs - 1)) mod 10 = 0 then (9 * (length xs - 1)) div 10
                   else Suc ((9 * (length xs - 1)) div 10))
        - sort xs ! ((9 * (length xs - 1)) div 10))
       * (real ((9 * (length xs - 1)) mod 10) / 10)"
proof -
  have pos: "0.9 * real (length xs - 1) = real (9 * (length xs - 1)) / 10"
    by simp
  show ?thesis
    unfolding quantile_def Let_def pos floor_nat_div10 ceiling_nat_div10 frac_div10 ..
qed


lemma interpolate_between:
  fixes a b f :: real
  assumes "a \<le> b" and "0 \<le> f" and "f \<le> 1"
  shows "a \<le> a + (b - a) * f \<and> a + (b - a) * f \<le> b"
proof -
  have "0 \<le> (b - a) * f" using assms by simp
  moreover have "(b - a) * f \<le> (b - a) * 1"
    using assms by (intro mult_left_mono) simp_all
  ultimately show ?thesis by simp
qed

lemma quantile_bounds:
  assumes "xs \<noteq> []"
  shows "Min (set xs) \<le> quantile 0.9 xs \<and> quantile 0.9 xs \<le> Max (set xs)"
proof -
  define n where "n = length xs"
  define a where "a = 9 * (n - 1)"
  define k where "k = a div 10"
  define k' where "k' = (if a mod 10 = 0 then k else Suc k)"
  define f where "f = real (a mod 10) / 10"
  have n: "0 < n" using assms by (simp add: n_def)
  have kk': "k \<le> k'" by (simp add: k'_def)
  have k'n: "k' < n"
  proof (cases "a mod 10 = 0")
    case True
    have "a div 10 \<le> n - 1" unfolding a_def by simp
    then show ?thesis using True n by (simp add: k'_def k_def)
  next
    case False
    have "10 * (a div 10) + a mod 10 = 9 * (n - 1)" unfolding a_def [symmetric] by simp
    then have "10 * (a div 10) < 9 * (n - 1)" using False by linarith
    then have "Suc (a div 10) \<le> n - 1" by linarith
    then show ?thesis using False n by (simp add: k'_def k_def)
  qed
  have f: "0 \<le> f" "f \<le> 1"
  proof -
    have "a mod 10 < 10" by simp
    then have "real (a mod 10) \<le> 10" by linarith
    then show "f \<le> 1" by (simp add: f_def)
  qed (simp add: f_def)
  have len: "length (sort xs) = n" by (simp add: n_def)
  have mono: "sort xs ! k \<le> sort xs ! k'"
    using kk' k'n len by (intro sorted_nth_mono) simp_all
  have "k < length (sort xs)" "k' < length (sort xs)"
    using kk' k'n len by simp_all
  then have "sort xs ! k \<in> set (sort xs)" "sort xs ! k' \<in> set (sort xs)"
    by (simp_all only: nth_mem)
  then have mem: "sort xs ! k \<in> set xs" "sort xs ! k' \<in> set xs"
    by simp_all
  have lo: "Min (set xs) \<le> sort xs ! k" using mem(1) by simp
  have hi: "sort xs ! k' \<le> Max (set xs)" using mem(2) by simp
  have q: "quantile 0.9 xs = sort xs ! k + (sort xs ! k' - sort xs ! k) * f"
    unfolding quantile_divmod k'_def k_def a_def n_def f_def ..
  show ?thesis
    using interpolate_between [OF mono f] lo hi unfolding q by linarith
qed

lemma quantile_1_to_10: "quantile (9 / 10) [1, 2, 3, 4, 5, 6, 7, 8, 9, 10] = 91 / 10"
  by (simp add: quantile_def Let_def)

text \<open>
  C6. For a group with at least one non-null delay, \<^verbatim>\<open>p90_delay_min\<close> interpolates
  linearly between two neighbouring order statistics of the non-null delays: with \<open>n\<close>
  delays, \<open>k = 9 * (n - 1) div 10\<close> and \<open>m = 9 * (n - 1) mod 10\<close>, it is the \<open>k\<close>-th smallest
  delay (counting from 0) plus \<open>m / 10\<close> of the step to the next one. It lies between the
  smallest and the largest delay of the group, and the delays 1, 2, ..., 10 give 9.1.
\<close>

theorem p90_linear_interpolation:
  assumes "''delay_minutes'' \<in> set (columns g)"
    and "dropna (map delay_minutes (rows g)) = ds" and "ds \<noteq> []"
  shows "(\<exists>s p. group_kpis g t = Inr s \<and> p90_delay_min s = Some p
           \<and> p = sort ds ! ((9 * (length ds - 1)) div 10)
                 + (sort ds ! (if (9 * (length ds - 1)) mod 10 = 0
                               then (9 * (length ds - 1)) div 10
                               else Suc ((9 * (length ds - 1)) div 10))
                    - sort ds ! ((9 * (length ds - 1)) div 10))
                   * (real ((9 * (length ds - 1)) mod 10) / 10)
           \<and> Min (set ds) \<le> p \<and> p \<le> Max (set ds))
       \<and> quantile 0.9 [1, 2, 3, 4, 5, 6, 7, 8, 9, 10] = 9.1"
proof (rule conjI)
  let ?s = "\<lparr>avg_delay_min = Some (mean ds), p90_delay_min = Some (quantile 0.9 ds),
          on_time_rate = Some (le_mean ds t), n_events = length ds\<rparr>"
  have g: "group_kpis g t = Inr ?s"
    using assms group_kpis_nonempty [of g t] by simp
  have b: "Min (set ds) \<le> quantile 0.9 ds" "quantile 0.9 ds \<le> Max (set ds)"
    using quantile_bounds [OF assms(3)] by simp_all
  show "\<exists>s p. group_kpis g t = Inr s \<and> p90_delay_min s = Some p
           \<and> p = sort ds ! ((9 * (length ds - 1)) div 10)
                 + (sort ds ! (if (9 * (length ds - 1)) mod 10 = 0
                               then (9 * (length ds - 1)) div 10
                               else Suc ((9 * (length ds - 1)) div 10))
                    - sort ds ! ((9 * (length ds - 1)) div 10))
                   * (real ((9 * (length ds - 1)) mod 10) / 10)
           \<and> Min (set ds) \<le> p \<and> p \<le> Max (set ds)"
  proof (intro exI conjI)
    show "group_kpis g t = Inr ?s" by (rule g)
    show "p90_delay_min ?s = Some (quantile 0.9 ds)" by simp
    show "quantile 0.9 ds = sort ds ! ((9 * (length ds - 1)) div 10)
                 + (sort ds ! (if (9 * (length ds - 1)) mod 10 = 0
                               then (9 * (length ds - 1)) div 10
                               else Suc ((9 * (length ds - 1)) div 10))
                    - sort ds ! ((9 * (length ds - 1)) div 10))
                   * (real ((9 * (length ds - 1)) mod 10) / 10)"
      by (rule quantile_divmod)
    show "Min (set ds) \<le> quantile 0.9 ds" by (rule b(1))
    show "quantile 0.9 ds \<le> Max (set ds)" by (rule b(2))
  qed
  show "quantile 0.9 [1, 2, 3, 4, 5, 6, 7, 8, 9, 10] = 9.1"
    using quantile_1_to_10 by simp
qed

lemma demo_ten_delays:
  "dropna (map delay_minutes (rows demo_ten)) = [3, 1, 2, 10, 9, 8, 7, 6, 5, 4]"
  by (simp add: demo_ten_def dropna_def)

theorem p90_linear_interpolation_witness:
  "''delay_minutes'' \<in> set (columns demo_ten)
   \<and> dropna (map delay_minutes (rows demo_ten)) = [3, 1, 2, 10, 9, 8, 7, 6, 5, 4]
   \<and> (\<exists>s p. group_kpis demo_ten 1 = Inr s \<and> p90_delay_min s = Some p \<and> p = 9.1
          \<and> Min (set [3, 1, 2, 10, 9, 8, 7, 6, 5, 4]) \<le> p
          \<and> p \<le> Max (set [3, 1, 2, 10, 9, 8, 7, 6, 5, 4]))"
proof -
  have c: "''delay_minutes'' \<in> set (columns demo_ten)"
    by (simp add: demo_ten_def)
  have n: "[3, 1, 2, 10, 9, 8, 7, 6, 5, 4 :: real] \<noteq> []"
    by simp
  show ?thesis
    using p90_linear_interpolation [OF c demo_ten_delays n, of 1] c demo_ten_delays
    by simp
qed

subsection \<open>The table of the caller\<close>

lemma add_reliability_score_st_eq:
  assumes "k < length h" and "h ! k = StatFrame rs"
  shows "add_reliability_score_st k h = (length h, h @ [KpiFrame (add_reliability_score rs)])"
  using assms by (simp add: add_reliability_score_st_def copy_frame_def alloc_def)

lemma groupby_apply_st_eq:
  "groupby_apply_st rd by keyf f df h =
     (case groupby_apply by keyf f (rd (h ! df)) of
        Inl err \<Rightarrow> (Inl err, h)
      | Inr kpis \<Rightarrow> (Inr (Suc (length h)), h @ [StatFrame kpis, StatFrame kpis]))"
  by (simp add: groupby_apply_st_def alloc_def nth_append split: sum.splits)

lemma add_time_of_day_bucket_st_eq:
  assumes "df < length h" and "h ! df = EventFrame d"
  shows "add_time_of_day_bucket_st df h =
     (if ''hour'' \<notin> set (columns d) then (Inl (KeyError ''Dataframe must contain hour''), h)
      else case apply_bucket (rows d) of
        Inl err \<Rightarrow> (Inl err, h @ [EventFrame d])
      | Inr bs \<Rightarrow>
          (Inr (length h),
           h @ [BucketedFrame \<lparr>columns = set_column ''time_of_day'' (columns d), rows = bs\<rparr>]))"
  using assms
  by (simp add: add_time_of_day_bucket_st_def copy_frame_def alloc_def split: sum.splits)

lemma scored_st:
  "(case add_reliability_score_st (Suc (length h)) (h @ [StatFrame s, StatFrame s]) of
      (kpis', h2) \<Rightarrow> (Inr kpis', h2))
   = (Inr (length h + 2) :: error + nat,
      h @ [StatFrame s, StatFrame s, KpiFrame (add_reliability_score s)])"
  by (simp add: add_reliability_score_st_eq [of _ _ s] nth_append)

lemma compute_route_kpis_st_frame:
  assumes "df < length h" and "h ! df = EventFrame d"
  shows "case compute_route_kpis_st df t h of
           (r, h') \<Rightarrow>
             take (length h) h' = h \<and> h' ! df = EventFrame d
           \<and> (case r of
                 Inl err \<Rightarrow> compute_route_kpis d t = Inl err
               | Inr k \<Rightarrow> length h \<le> k \<and> k < length h' \<and> k \<noteq> df
                   \<and> (\<exists>kpis. compute_route_kpis d t = Inr kpis \<and> h' ! k = KpiFrame kpis))"
  using assms
  by (simp add: compute_route_kpis_st_def compute_route_kpis_def groupby_apply_st_eq scored_st
        nth_append split: sum.splits)

lemma compute_route_hour_kpis_st_frame:
  assumes "df < length h" and "h ! df = EventFrame d"
  shows "case compute_route_hour_kpis_st df t h of
           (r, h') \<Rightarrow>
             take (length h) h' = h \<and> h' ! df = EventFrame d
           \<and> (case r of
                 Inl err \<Rightarrow> compute_route_hour_kpis d t = Inl err
               | Inr k \<Rightarrow> length h \<le> k \<and> k < length h' \<and> k \<noteq> df
                   \<and> (\<exists>kpis. compute_route_hour_kpis d t = Inr kpis \<and> h' ! k = KpiFrame kpis))"
  using assms
  by (simp add: compute_route_hour_kpis_st_def compute_route_hour_kpis_def groupby_apply_st_eq
        scored_st nth_append split: sum.splits)

lemma compute_route_period_kpis_st_frame:
  assumes "df < length h" and "h ! df = EventFrame d"
  shows "case compute_route_period_kpis_st df t h of
           (r, h') \<Rightarrow>
             take (length h) h' = h \<and> h' ! df = EventFrame d
           \<and> (case r of
                 Inl err \<Rightarrow> compute_route_period_kpis d t = Inl err
               | Inr k \<Rightarrow> length h \<le> k \<and> k < length h' \<and> k \<noteq> df
                   \<and> (\<exists>kpis. compute_route_period_kpis d t = Inr kpis \<and> h' ! k = KpiFrame kpis))"
proof (cases "''hour'' \<in> set (columns d)")
  case False
  then show ?thesis
    using assms
    by (simp add: compute_route_period_kpis_st_def compute_route_period_kpis_def
          add_time_of_day_bucket_st_eq add_time_of_day_bucket_def)
next
  case hour: True
  show ?thesis
  proof (cases "apply_bucket (rows d)")
    case (Inl err)
    then show ?thesis
      using assms hour
      by (simp add: compute_route_period_kpis_st_def compute_route_period_kpis_def
            add_time_of_day_bucket_st_eq add_time_of_day_bucket_def nth_append)
  next
    case (Inr bs)
    let ?b = "\<lparr>columns = set_column ''time_of_day'' (columns d), rows = bs\<rparr>"
    let ?h1 = "h @ [BucketedFrame ?b]"
    have b: "add_time_of_day_bucket_st df h = (Inr (length h), ?h1)"
      "add_time_of_day_bucket d = Inr ?b"
      using assms hour Inr
      by (simp_all add: add_time_of_day_bucket_st_eq add_time_of_day_bucket_def)
    have s: "(case add_reliability_score_st (Suc (length ?h1)) (?h1 @ [StatFrame s, StatFrame s]) of
                (kpis', h2) \<Rightarrow> (Inr kpis', h2))
             = (Inr (length ?h1 + 2) :: error + nat,
                ?h1 @ [StatFrame s, StatFrame s, KpiFrame (add_reliability_score s)])" for s
      by (rule scored_st)
    show ?thesis
      using s assms
      by (simp add: compute_route_period_kpis_st_def compute_route_period_kpis_def b
            groupby_apply_st_eq nth_append split: sum.splits)
  qed
qed

text \<open>
  C9. Let \<open>df\<close> refer to an event table on the heap. Each of \<^verbatim>\<open>compute_route_kpis\<close>,
  \<^verbatim>\<open>compute_route_hour_kpis\<close> and \<^verbatim>\<open>compute_route_period_kpis\<close> leaves every object
  that existed before the call as it was, in particular the table at \<open>df\<close> (its columns
  and its rows). A returned table lives at a reference that did not exist before the call,
  so it is another object than the input, and it holds the table computed from the input;
  a call that raises, raises what the computation on the input raises.
\<close>

theorem input_table_unchanged:
  assumes "df < length h" and "h ! df = EventFrame d"
  shows "\<forall>(st, pure) \<in> set [(compute_route_kpis_st, compute_route_kpis),
                            (compute_route_hour_kpis_st, compute_route_hour_kpis),
                            (compute_route_period_kpis_st, compute_route_period_kpis)].
           case st df t h of
             (r, h') \<Rightarrow>
               take (length h) h' = h \<and> h' ! df = EventFrame d
             \<and> (case r of
                   Inl err \<Rightarrow> pure d t = Inl err
                 | Inr k \<Rightarrow> length h \<le> k \<and> k < length h' \<and> k \<noteq> df
                     \<and> (\<exists>kpis. pure d t = Inr kpis \<and> h' ! k = KpiFrame kpis))"
  using compute_route_kpis_st_frame [OF assms, of t]
    compute_route_hour_kpis_st_frame [OF assms, of t]
    compute_route_period_kpis_st_frame [OF assms, of t]
  by simp

lemma kpis_st_address:
  assumes "df < length h" and "h ! df = EventFrame d"
  shows "compute_route_kpis d t = Inr k1
           \<Longrightarrow> fst (compute_route_kpis_st df t h) = Inr (length h + 2)"
    and "compute_route_hour_kpis d t = Inr k2
           \<Longrightarrow> fst (compute_route_hour_kpis_st df t h) = Inr (length h + 2)"
    and "compute_route_period_kpis d t = Inr k3
           \<Longrightarrow> fst (compute_route_period_kpis_st df t h) = Inr (length h + 3)"
proof -
  show "compute_route_kpis d t = Inr k1
           \<Longrightarrow> fst (compute_route_kpis_st df t h) = Inr (length h + 2)"
    using assms
    by (simp add: compute_route_kpis_st_def compute_route_kpis_def groupby_apply_st_eq scored_st
          split: sum.splits if_splits)
  show "compute_route_hour_kpis d t = Inr k2
           \<Longrightarrow> fst (compute_route_hour_kpis_st df t h) = Inr (length h + 2)"
    using assms
    by (simp add: compute_route_hour_kpis_st_def compute_route_hour_kpis_def groupby_apply_st_eq
          scored_st split: sum.splits if_splits)
  assume p: "compute_route_period_kpis d t = Inr k3"
  then obtain bs where bs: "''hour'' \<in> set (columns d)" "apply_bucket (rows d) = Inr bs"
    by (auto simp add: compute_route_period_kpis_def add_time_of_day_bucket_def
          split: sum.splits if_splits)
  let ?b = "\<lparr>columns = set_column ''time_of_day'' (columns d), rows = bs\<rparr>"
  let ?h1 = "h @ [BucketedFrame ?b]"
  have b: "add_time_of_day_bucket_st df h = (Inr (length h), ?h1)"
    "add_time_of_day_bucket d = Inr ?b"
    using assms bs
    by (simp_all add: add_time_of_day_bucket_st_eq add_time_of_day_bucket_def)
  have s: "(case add_reliability_score_st (Suc (length ?h1)) (?h1 @ [StatFrame s, StatFrame s]) of
              (kpis', h2) \<Rightarrow> (Inr kpis', h2))
           = (Inr (length ?h1 + 2) :: error + nat,
              ?h1 @ [StatFrame s, StatFrame s, KpiFrame (add_reliability_score s)])" for s
    by (rule scored_st)
  show "fst (compute_route_period_kpis_st df t h) = Inr (length h + 3)"
    using p s
    by (simp add: compute_route_period_kpis_st_def compute_route_period_kpis_def b
          groupby_apply_st_eq nth_append split: sum.splits)
qed

theorem input_table_unchanged_witness:
  "(0::nat) < length [EventFrame demo_events]
   \<and> [EventFrame demo_events] ! 0 = EventFrame demo_events
   \<and> (\<exists>h1 h2 h3 k1 k2 k3.
         compute_route_kpis_st 0 1 [EventFrame demo_events] = (Inr 3, h1)
       \<and> compute_route_hour_kpis_st 0 1 [EventFrame demo_events] = (Inr 3, h2)
       \<and> compute_route_period_kpis_st 0 1 [EventFrame demo_events] = (Inr 4, h3)
       \<and> h1 ! 0 = EventFrame demo_events \<and> h2 ! 0 = EventFrame demo_events
       \<and> h3 ! 0 = EventFrame demo_events
       \<and> h1 ! 3 = KpiFrame k1 \<and> h2 ! 3 = KpiFrame k2 \<and> h3 ! 4 = KpiFrame k3
       \<and> compute_route_kpis demo_events 1 = Inr k1
       \<and> compute_route_hour_kpis demo_events 1 = Inr k2
       \<and> compute_route_period_kpis demo_events 1 = Inr k3
       \<and> length k1 = 2 \<and> length k2 = 3 \<and> length k3 = 3)"
proof -
  let ?h = "[EventFrame demo_events]"
  obtain r1 h1 r2 h2 r3 h3 where e: "compute_route_kpis_st 0 1 ?h = (r1, h1)"
    "compute_route_hour_kpis_st 0 1 ?h = (r2, h2)"
    "compute_route_period_kpis_st 0 1 ?h = (r3, h3)"
    by (meson surj_pair)
  have r: "r1 = Inr 3" "r2 = Inr 3" "r3 = Inr 4"
    using kpis_st_address(1) [of 0 ?h demo_events 1, OF _ _ demo_route_kpis]
      kpis_st_address(2) [of 0 ?h demo_events 1, OF _ _ demo_route_hour_kpis]
      kpis_st_address(3) [of 0 ?h demo_events 1, OF _ _ demo_route_period_kpis] e
    by simp_all
  show ?thesis
    using input_table_unchanged [of 0 ?h demo_events 1] e r
      demo_route_kpis demo_route_hour_kpis demo_route_period_kpis
    by simp
qed

subsection \<open>Worst routes\<close>























end
